theory Spec2Isabelle
  imports Main "HOL-Library.Word"
begin

section \<open>Python values and exceptions\<close>

text \<open>
  The two source files are Python. The request body of the formatter routes, and every
  value inside it, is a JSON value as \<open>json.loads\<close> returns it: \<open>None\<close>, a
  \<open>bool\<close>, an \<open>int\<close>, a \<open>str\<close>, a \<open>list\<close> or a \<open>dict\<close> with \<open>str\<close> keys
  (kept in insertion order). A \<open>str\<close> is kept as its UTF-8 bytes, so
  \<open>str.encode('utf-8')\<close> and \<open>bytes.decode('utf-8')\<close> are the identity on the
  carrier; numbers are integers (no float occurs in the data the claims speak about).
\<close>

datatype json =
    JNull
  | JBool bool
  | JInt int
  | JStr string
  | JList "json list"
  | JDict "(string \<times> json) list"

text \<open>
  Every exception the modelled statements can raise. \<open>LibraryError c\<close> is an
  exception of class \<open>c\<close> raised inside a third-party call (jwcrypto, sd_jwt,
  pymdoccbor, cryptography). The last four constructors are the error kinds of
  section 7 of the specification; no statement of the sources raises them.
\<close>

datatype exn =
    KeyError
  | IndexError
  | TypeError
  | AttributeError
  | ValueError
  | BinasciiError
  | CBORDecodeError
  | LibraryError string
  | MissingDataError
  | MalformedCredentialError
  | UnsupportedCurveError
  | IncompleteAttributeSetError

text \<open>Sequencing of statements that may raise: the first exception ends the call.\<close>

definition bnd :: "exn + 'a \<Rightarrow> ('a \<Rightarrow> exn + 'b) \<Rightarrow> exn + 'b" where
  "bnd m f = (case m of Inl e \<Rightarrow> Inl e | Inr v \<Rightarrow> f v)"

section \<open>DatestringFormatter (formatter\_func.py, lines 288-294)\<close>

text \<open>
  \<open>datetime.datetime.strptime(date, '%Y-%m-%d')\<close>: the format is compiled to the
  regular expression \<open>(\d\d\d\d)-(1[0-2]|0[1-9]|[1-9])-(3[01]|[12]\d|0[1-9]|[1-9]| [1-9])\<close>,
  matched at the start of the string; text left over after the match, or a day the
  month does not have, is a \<open>ValueError\<close>.
\<close>

definition is_digit :: "char \<Rightarrow> bool" where
  "is_digit c = (c \<in> set ''0123456789'')"

definition digit_val :: "char \<Rightarrow> nat" where
  "digit_val c = of_char c - 48"

definition is_leap :: "nat \<Rightarrow> bool" where
  "is_leap y = (y mod 4 = 0 \<and> (y mod 100 \<noteq> 0 \<or> y mod 400 = 0))"

definition days_in_month :: "nat \<Rightarrow> nat \<Rightarrow> nat" where
  "days_in_month y m =
     (if m = 2 then (if is_leap y then 29 else 28)
      else if m = 4 \<or> m = 6 \<or> m = 9 \<or> m = 11 then 30 else 31)"

text \<open>The regular expression's three groups, in the order the alternatives are tried.\<close>

fun match_year :: "string \<Rightarrow> (nat \<times> string) option" where
  "match_year (a # b # c # d # rest) =
     (if is_digit a \<and> is_digit b \<and> is_digit c \<and> is_digit d
      then Some (1000 * digit_val a + 100 * digit_val b + 10 * digit_val c + digit_val d, rest)
      else None)"
| "match_year _ = None"

definition match_month :: "string \<Rightarrow> (nat \<times> string) option" where
  "match_month s =
     (case s of
        a # b # rest \<Rightarrow>
          if a = CHR ''1'' \<and> (b = CHR ''0'' \<or> b = CHR ''1'' \<or> b = CHR ''2'')
            then Some (10 + digit_val b, rest)
          else if a = CHR ''0'' \<and> is_digit b \<and> b \<noteq> CHR ''0''
            then Some (digit_val b, rest)
          else if is_digit a \<and> a \<noteq> CHR ''0'' then Some (digit_val a, b # rest)
          else None
      | [a] \<Rightarrow> if is_digit a \<and> a \<noteq> CHR ''0'' then Some (digit_val a, []) else None
      | [] \<Rightarrow> None)"

definition match_day :: "string \<Rightarrow> (nat \<times> string) option" where
  "match_day s =
     (case s of
        a # b # rest \<Rightarrow>
          if a = CHR ''3'' \<and> (b = CHR ''0'' \<or> b = CHR ''1'')
            then Some (30 + digit_val b, rest)
          else if (a = CHR ''1'' \<or> a = CHR ''2'') \<and> is_digit b
            then Some (10 * digit_val a + digit_val b, rest)
          else if a = CHR ''0'' \<and> is_digit b \<and> b \<noteq> CHR ''0''
            then Some (digit_val b, rest)
          else if is_digit a \<and> a \<noteq> CHR ''0'' then Some (digit_val a, b # rest)
          else if a = CHR '' '' \<and> is_digit b \<and> b \<noteq> CHR ''0''
            then Some (digit_val b, rest)
          else None
      | [a] \<Rightarrow> if is_digit a \<and> a \<noteq> CHR ''0'' then Some (digit_val a, []) else None
      | [] \<Rightarrow> None)"

definition expect_dash :: "string \<Rightarrow> string option" where
  "expect_dash s = (case s of c # rest \<Rightarrow> if c = CHR ''-'' then Some rest else None | [] \<Rightarrow> None)"

text \<open>
  \<open>strptime\<close> itself: the parsed (year, month, day), or \<open>None\<close> where Python raises
  \<open>ValueError\<close> (no match, unconverted data, year 0, day out of range for the month).
\<close>

definition strptime :: "string \<Rightarrow> (nat \<times> nat \<times> nat) option" where
  "strptime s =
     (case match_year s of None \<Rightarrow> None | Some (y, s1) \<Rightarrow>
      case expect_dash s1 of None \<Rightarrow> None | Some s2 \<Rightarrow>
      case match_month s2 of None \<Rightarrow> None | Some (m, s3) \<Rightarrow>
      case expect_dash s3 of None \<Rightarrow> None | Some s4 \<Rightarrow>
      case match_day s4 of None \<Rightarrow> None | Some (d, s5) \<Rightarrow>
        if s5 = [] \<and> 1 \<le> y \<and> d \<le> days_in_month y m then Some (y, m, d) else None)"

text \<open>The proleptic Gregorian ordinal of a date, as \<open>datetime\<close> computes it.\<close>

definition days_before_year :: "nat \<Rightarrow> int" where
  "days_before_year y =
     (let p = int y - 1 in p * 365 + p div 4 - p div 100 + p div 400)"

definition days_before_month :: "nat \<Rightarrow> nat \<Rightarrow> int" where
  "days_before_month y m = (\<Sum>k \<leftarrow> [1..<m]. int (days_in_month y k))"

definition ymd2ord :: "nat \<times> nat \<times> nat \<Rightarrow> int" where
  "ymd2ord dt = (case dt of (y, m, d) \<Rightarrow> days_before_year y + days_before_month y m + int d)"

text \<open>The number of whole days from 1970-01-01 to a calendar date.\<close>

definition days_since_epoch :: "nat \<times> nat \<times> nat \<Rightarrow> int" where
  "days_since_epoch dt = ymd2ord dt - ymd2ord (1970, 1, 1)"

text \<open>
  \<open>datetime.timestamp()\<close> of the naive datetime that \<open>strptime\<close> returns: Python
  reads a naive datetime as local time, so the POSIX timestamp of local midnight is
  the UTC one minus the UTC offset of the process's time zone at that moment
  (\<open>tz\<close>, in seconds east of UTC; it belongs to the environment of the call).
\<close>

definition timestamp :: "(nat \<times> nat \<times> nat \<Rightarrow> int) \<Rightarrow> nat \<times> nat \<times> nat \<Rightarrow> int" where
  "timestamp tz dt = days_since_epoch dt * 86400 - tz dt"

text \<open>
  \<open>int(x / (24 * 60 * 60))\<close>: true division, then truncation towards zero. The
  timestamps of the years 1 to 9999 are below \<open>2^53\<close> in magnitude and the
  fractional part of the quotient is a multiple of \<open>1/86400\<close>, so the floating-point
  quotient truncates to the same integer as the exact one.
\<close>

definition py_int_div :: "int \<Rightarrow> int \<Rightarrow> int" where
  "py_int_div a b = (if 0 \<le> a then a div b else - ((- a) div b))"

definition DatestringFormatter :: "(nat \<times> nat \<times> nat \<Rightarrow> int) \<Rightarrow> json \<Rightarrow> exn + int" where
  "DatestringFormatter tz date =
     (case date of
        JStr s \<Rightarrow>
          (case strptime s of
             None \<Rightarrow> Inl ValueError
           | Some date_objectiat \<Rightarrow>
               Inr (py_int_div (timestamp tz date_objectiat) (24 * 60 * 60)))
      | _ \<Rightarrow> Inl TypeError)"

section \<open>Subscripts, attribute calls and iteration on JSON values\<close>

text \<open>\<open>x[k]\<close> for a \<open>str\<close> key: only a \<open>dict\<close> takes one.\<close>

fun getitem :: "json \<Rightarrow> string \<Rightarrow> exn + json" where
  "getitem (JDict kvs) k = (case map_of kvs k of None \<Rightarrow> Inl KeyError | Some v \<Rightarrow> Inr v)"
| "getitem _ k = Inl TypeError"

text \<open>
  \<open>x[i]\<close> for the literal index \<open>i\<close> (0 or 1 in the sources): a \<open>list\<close> or a
  \<open>str\<close> is indexed, a \<open>dict\<close> has no integer key (its keys are \<open>str\<close>), anything
  else is not subscriptable.
\<close>

fun index :: "json \<Rightarrow> nat \<Rightarrow> exn + json" where
  "index (JList xs) i = (if i < length xs then Inr (xs ! i) else Inl IndexError)"
| "index (JStr s) i = (if i < length s then Inr (JStr [s ! i]) else Inl IndexError)"
| "index (JDict kvs) i = Inl KeyError"
| "index _ i = Inl TypeError"

text \<open>\<open>x.get(k, default)\<close> and \<open>x.keys()\<close>: methods of \<open>dict\<close> only.\<close>

fun dict_get :: "json \<Rightarrow> string \<Rightarrow> json \<Rightarrow> exn + json" where
  "dict_get (JDict kvs) k dflt = Inr (case map_of kvs k of None \<Rightarrow> dflt | Some v \<Rightarrow> v)"
| "dict_get _ k dflt = Inl AttributeError"

fun dict_keys :: "json \<Rightarrow> exn + string list" where
  "dict_keys (JDict kvs) = Inr (map fst kvs)"
| "dict_keys _ = Inl AttributeError"

text \<open>\<open>list(...)[i]\<close> on the list of keys.\<close>

definition list_index :: "'a list \<Rightarrow> nat \<Rightarrow> exn + 'a" where
  "list_index xs i = (if i < length xs then Inr (xs ! i) else Inl IndexError)"

text \<open>\<open>for i in x\<close>: the keys of a \<open>dict\<close>, the items of a \<open>list\<close>, the characters of a \<open>str\<close>.\<close>

fun py_iter :: "json \<Rightarrow> exn + json list" where
  "py_iter (JDict kvs) = Inr (map (\<lambda>kv. JStr (fst kv)) kvs)"
| "py_iter (JList xs) = Inr xs"
| "py_iter (JStr s) = Inr (map (\<lambda>c. JStr [c]) s)"
| "py_iter _ = Inl TypeError"

text \<open>An object usable as a sequence index: an \<open>int\<close>, or a \<open>bool\<close> (a subclass of \<open>int\<close>).\<close>

fun as_index :: "json \<Rightarrow> int option" where
  "as_index (JInt n) = Some n"
| "as_index (JBool b) = Some (if b then 1 else 0)"
| "as_index _ = None"

definition seq_index :: "'a list \<Rightarrow> int \<Rightarrow> exn + 'a" where
  "seq_index xs n =
     (let j = (if n < 0 then n + int (length xs) else n)
      in if 0 \<le> j \<and> j < int (length xs) then Inr (xs ! nat j) else Inl IndexError)"

text \<open>\<open>x[i]\<close> for an index that is itself a value, as in \<open>PID[i]\<close> of \<open>DATA_sd_jwt\<close>.\<close>

fun subscript :: "json \<Rightarrow> json \<Rightarrow> exn + json" where
  "subscript (JDict kvs) (JStr k) = (case map_of kvs k of None \<Rightarrow> Inl KeyError | Some v \<Rightarrow> Inr v)"
| "subscript (JDict kvs) (JList _) = Inl TypeError"
| "subscript (JDict kvs) (JDict _) = Inl TypeError"
| "subscript (JDict kvs) _ = Inl KeyError"
| "subscript (JList xs) i = (case as_index i of None \<Rightarrow> Inl TypeError | Some n \<Rightarrow> seq_index xs n)"
| "subscript (JStr s) i =
     (case as_index i of None \<Rightarrow> Inl TypeError
      | Some n \<Rightarrow> (case seq_index s n of Inl e \<Rightarrow> Inl e | Inr c \<Rightarrow> Inr (JStr [c])))"
| "subscript _ i = Inl TypeError"

section \<open>The claim tree handed to the SD-JWT issuer\<close>

text \<open>
  A key of the claim dictionaries is a plain \<open>str\<close> or an \<open>SDObj(value=...)\<close> of the
  sd\_jwt library, which marks the entry as selectively disclosable. Python compares
  two \<open>SDObj\<close> by their values and never equates an \<open>SDObj\<close> with a \<open>str\<close>.
\<close>

datatype claim_key = StrKey string | SDObj json

datatype sdclaims = Val json | Dict "(claim_key \<times> sdclaims) list"

definition py_eq :: "json \<Rightarrow> json \<Rightarrow> bool" where
  "py_eq a b =
     (case (as_index a, as_index b) of (Some m, Some n) \<Rightarrow> m = n | _ \<Rightarrow> a = b)"

fun key_eq :: "claim_key \<Rightarrow> claim_key \<Rightarrow> bool" where
  "key_eq (StrKey a) (StrKey b) = (a = b)"
| "key_eq (SDObj a) (SDObj b) = py_eq a b"
| "key_eq _ _ = False"

text \<open>\<open>D[k] = v\<close>: an existing key keeps its place and gets the new value.\<close>

fun dict_set :: "(claim_key \<times> sdclaims) list \<Rightarrow> claim_key \<Rightarrow> sdclaims \<Rightarrow> (claim_key \<times> sdclaims) list" where
  "dict_set [] k v = [(k, v)]"
| "dict_set ((k', v') # D) k v = (if key_eq k' k then (k', v) # D else (k', v') # dict_set D k v)"

text \<open>\<open>D.update(other)\<close>.\<close>

definition dict_update :: "(claim_key \<times> sdclaims) list \<Rightarrow> (claim_key \<times> sdclaims) list \<Rightarrow> (claim_key \<times> sdclaims) list" where
  "dict_update D other = fold (\<lambda>kv acc. dict_set acc (fst kv) (snd kv)) other D"

fun sd_lookup :: "(claim_key \<times> sdclaims) list \<Rightarrow> claim_key \<Rightarrow> sdclaims option" where
  "sd_lookup [] k = None"
| "sd_lookup ((k', v') # D) k = (if key_eq k' k then Some v' else sd_lookup D k)"

text \<open>\<open>D[k].update(other)\<close>, where \<open>D[k]\<close> is one of the claim dictionaries.\<close>

definition update_item :: "(claim_key \<times> sdclaims) list \<Rightarrow> claim_key \<Rightarrow> (claim_key \<times> sdclaims) list \<Rightarrow> exn + (claim_key \<times> sdclaims) list" where
  "update_item D k other =
     (case sd_lookup D k of
        None \<Rightarrow> Inl KeyError
      | Some (Dict old) \<Rightarrow> Inr (dict_set D k (Dict (dict_update old other)))
      | Some (Val _) \<Rightarrow> Inl AttributeError)"

section \<open>DATA\_sd\_jwt (formatter\_func.py, lines 272-286)\<close>

text \<open>
  The loop \<open>for i in PID: Data.update({SDObj(value=i): PID[i]})\<close>, over the items
  that are still to come.
\<close>

fun DATA_sd_jwt_loop :: "json \<Rightarrow> json list \<Rightarrow> (claim_key \<times> sdclaims) list \<Rightarrow> exn + (claim_key \<times> sdclaims) list" where
  "DATA_sd_jwt_loop PID [] Data = Inr Data"
| "DATA_sd_jwt_loop PID (i # rest) Data =
     bnd (subscript PID i) (\<lambda>v.
     DATA_sd_jwt_loop PID rest (dict_update Data [(SDObj i, Val v)]))"

definition DATA_sd_jwt :: "json \<Rightarrow> exn + (claim_key \<times> sdclaims) list" where
  "DATA_sd_jwt PID = bnd (py_iter PID) (\<lambda>items. DATA_sd_jwt_loop PID items [])"

section \<open>The environment of a call\<close>

text \<open>
  A JSON Web Key as the sources write it (a \<open>dict\<close> with these entries), and the
  keyword dictionary that \<open>get_jwk\<close> of sd\_jwt takes.
\<close>

record jwk =
  jwk_kty :: string
  jwk_crv :: "string option"
  jwk_x :: string
  jwk_y :: string
  jwk_d :: "string option"

record jwk_kwargs =
  issuer_key :: jwk
  holder_key :: jwk
  key_size :: nat
  kty :: string

text \<open>
  A public key as \<open>load_pem_public_key\<close> of the cryptography library returns it:
  an elliptic-curve key has a curve name and the point's coordinates; a key of
  another kind (RSA, Ed25519) has no \<open>curve\<close> attribute.
\<close>

datatype public_key = EllipticCurvePublicKey string nat nat | OtherPublicKey

text \<open>
  What a call reads from outside the two source files: the loaded YAML files, the
  process's time zone, the random UUID drawn by \<open>uuid4()\<close>, and the third-party and
  standard-library functions it calls. A library function that raises returns the
  exception's class name on the left.
\<close>

record env =
  key_settings :: jwk_kwargs
  add_decoy_claims :: "bool option"
  utcoffset :: "nat \<times> nat \<times> nat \<Rightarrow> int"
  uuid4 :: string
  sha256_digest :: "string \<Rightarrow> string"
  get_jwk :: "jwk_kwargs \<Rightarrow> bool \<Rightarrow> int \<Rightarrow> string + jwk_kwargs"
  SDJWTIssuer :: "(claim_key \<times> sdclaims) list \<Rightarrow> jwk \<Rightarrow> jwk \<Rightarrow> bool \<Rightarrow> string + string"
  load_pem_public_key :: "string \<Rightarrow> string + public_key"
  urlsafe_b64decode :: "string \<Rightarrow> string option"
  urlsafe_b64encode :: "string \<Rightarrow> string"
  b64encode :: "string \<Rightarrow> string"

definition lib :: "string + 'a \<Rightarrow> exn + 'a" where
  "lib r = (case r of Inl c \<Rightarrow> Inl (LibraryError c) | Inr v \<Rightarrow> Inr v)"

section \<open>sdjwtFormatter (formatter\_func.py, lines 122-270)\<close>

text \<open>
  Lines 133-135: \<open>hashlib.sha256()\<close> is never updated, so \<open>hexdigest()\<close> is the
  digest of the empty message, and \<open>int(..., 16)\<close> reads its hexadecimal text as one
  big-endian integer.
\<close>

definition int_of_bytes :: "string \<Rightarrow> int" where
  "int_of_bytes bs = foldl (\<lambda>acc c. acc * 256 + int (of_char c)) 0 bs"

definition seed :: "env \<Rightarrow> int" where
  "seed env = int_of_bytes (sha256_digest env [])"

text \<open>
  Lines 143-204: the lookups in the request and the assembly of \<open>claims\<close>. The
  result is the pair of \<open>device_key\<close> (line 152) and \<open>claims\<close> after line 204.
\<close>

definition sdjwt_claims :: "env \<Rightarrow> json \<Rightarrow> exn + json \<times> (claim_key \<times> sdclaims) list" where
  "sdjwt_claims env PID =
     bnd (getitem PID ''data'') (\<lambda>data.
     bnd (getitem data ''claims'') (\<lambda>data_claims.
     bnd (getitem data_claims ''eu.europa.ec.eudiw.pid.1'') (\<lambda>PID_Claims_data.
     bnd (getitem PID_Claims_data ''issuance_date'') (\<lambda>issuance_date.
     bnd (DatestringFormatter (utcoffset env) issuance_date) (\<lambda>iat.
     bnd (getitem PID_Claims_data ''expiry_date'') (\<lambda>expiry_date.
     bnd (DatestringFormatter (utcoffset env) expiry_date) (\<lambda>exp.
     let jti = uuid4 env in
     bnd (dict_get PID ''data'' (JDict [])) (\<lambda>pid_data.
     bnd (getitem PID ''device_publickey'') (\<lambda>device_key.
     bnd (getitem PID ''doctype'') (\<lambda>doctype.
     bnd (getitem pid_data ''evidence'') (\<lambda>ev.
     bnd (index ev 0) (\<lambda>ev0.
     bnd (getitem ev0 ''source'') (\<lambda>source.
     bnd (getitem source ''organization_name'') (\<lambda>organization_name.
     let claims =
       [(StrKey ''iss'', Val organization_name),
        (StrKey ''jti'', Val (JStr jti)),
        (StrKey ''iat'', Val (JInt iat)),
        (StrKey ''exp'', Val (JInt exp)),
        (StrKey ''status'', Val (JStr ''validation status URL'')),
        (StrKey ''type'', Val doctype)] in
     bnd (getitem pid_data ''evidence'') (\<lambda>ev'.
     bnd (index ev' 0) (\<lambda>evidence.
     let disclosure_pid_data = [(SDObj (JStr ''evidence''), Val evidence)];
         verification =
           dict_update
             [(StrKey ''trust_framework'', Val (JStr ''eidas'')),
              (StrKey ''assurance_level'', Val (JStr ''high''))]
             disclosure_pid_data in
     bnd (getitem pid_data ''claims'') (\<lambda>c1.
     bnd (dict_keys c1) (\<lambda>keys1.
     bnd (list_index keys1 0) (\<lambda>primeira_chave.
     bnd (getitem pid_data ''claims'') (\<lambda>c2.
     bnd (dict_keys c2) (\<lambda>keys2.
     bnd (list_index keys2 1) (\<lambda>segunda_chave.
     bnd (getitem pid_data ''claims'') (\<lambda>c3.
     bnd (dict_get c3 primeira_chave (JDict [])) (\<lambda>PID_DATA.
     bnd (getitem pid_data ''claims'') (\<lambda>c4.
     bnd (dict_get c4 segunda_chave (JDict [])) (\<lambda>OPTIONAL_DATA.
     let JWT_PID_DATA =
           dict_set (dict_set [] (StrKey primeira_chave) (Dict []))
             (StrKey segunda_chave) (Dict []) in
     bnd (DATA_sd_jwt PID_DATA) (\<lambda>d1.
     bnd (update_item JWT_PID_DATA (StrKey primeira_chave) d1) (\<lambda>JWT_PID_DATA.
     bnd (DATA_sd_jwt OPTIONAL_DATA) (\<lambda>d2.
     bnd (update_item JWT_PID_DATA (StrKey segunda_chave) d2) (\<lambda>JWT_PID_DATA.
     let datafinal =
           [(StrKey ''verified_claims'',
             Dict [(StrKey ''verification'', Dict verification),
                   (StrKey ''claims'', Dict (dict_update [] JWT_PID_DATA))])]
     in Inr (device_key, dict_update claims datafinal)
     ))))))))))))))))))))))))))))))"

text \<open>
  Lines 217-227: \<open>n.to_bytes((n.bit_length() + 7) // 8, 'big')\<close>, the big-endian
  bytes of \<open>n\<close> in the least length that holds it.
\<close>

fun bit_length :: "nat \<Rightarrow> nat" where
  "bit_length n = (if n = 0 then 0 else Suc (bit_length (n div 2)))"

declare bit_length.simps [simp del]

definition to_bytes_big :: "nat \<Rightarrow> nat \<Rightarrow> string" where
  "to_bytes_big n len = map (\<lambda>i. char_of ((n div 256 ^ (len - 1 - i)) mod 256)) [0..<len]"

text \<open>Lines 209-213: \<open>curve_map\<close>.\<close>

definition curve_map :: "(string \<times> string) list" where
  "curve_map =
     [(''secp256r1'', ''P-256''),
      (''secp384r1'', ''P-384''),
      (''secp521r1'', ''P-521'')]"

text \<open>
  Lines 206-247: from \<open>device_key\<close> to \<open>jwk_kwargs\<close>. \<open>curve_map.get\<close> gives
  \<open>None\<close> for a curve name that is not in the table.
\<close>

definition holder_jwk_kwargs :: "env \<Rightarrow> json \<Rightarrow> exn + jwk_kwargs" where
  "holder_jwk_kwargs env device_key =
     bnd (case device_key of JStr s \<Rightarrow> Inr s | _ \<Rightarrow> Inl AttributeError) (\<lambda>encoded.
     bnd (case urlsafe_b64decode env encoded of None \<Rightarrow> Inl BinasciiError | Some b \<Rightarrow> Inr b)
       (\<lambda>device_key_bytes.
     bnd (lib (load_pem_public_key env device_key_bytes)) (\<lambda>public_key.
     bnd (case public_key of
            EllipticCurvePublicKey name px py \<Rightarrow> Inr (name, px, py)
          | OtherPublicKey \<Rightarrow> Inl AttributeError) (\<lambda>(curve_name, px, py).
     let curve_identifier = map_of curve_map curve_name;
         x = to_bytes_big px ((bit_length px + 7) div 8);
         y = to_bytes_big py ((bit_length py + 7) div 8)
     in Inr \<lparr>issuer_key =
               \<lparr>jwk_kty = ''EC'',
                jwk_crv = Some ''P-256'',
                jwk_x = ''b28d4MwZMjw8-00CG4xfnn9SLMVMM19SlqZpVb_uNtQ'',
                jwk_y = ''Xv5zWwuoaTgdS6hV43yI6gBwTnjukmFQQnJ_kCxzqk8'',
                jwk_d = Some ''Ur2bNKuBPOrAaxsRnbSH6hIhmNTxSGXshDSUD1a1y7g''\<rparr>,
             holder_key =
               \<lparr>jwk_kty = ''EC'',
                jwk_crv = curve_identifier,
                jwk_x = b64encode env x,
                jwk_y = b64encode env y,
                jwk_d = None\<rparr>,
             key_size = 256,
             kty = ''EC''\<rparr>))))"

text \<open>
  The whole function. Line 137 calls \<open>get_jwk\<close> before the request is read;
  line 251 calls it again for the holder key; lines 255-270 hand \<open>claims\<close> and the
  two keys to \<open>SDJWTIssuer\<close> and return its \<open>sd_jwt_issuance\<close>.
\<close>

definition sdjwtFormatter :: "env \<Rightarrow> json \<Rightarrow> exn + string" where
  "sdjwtFormatter env PID =
     bnd (lib (get_jwk env (key_settings env) True (seed env))) (\<lambda>demo_keys.
     let use_decoys = (case add_decoy_claims env of None \<Rightarrow> False | Some b \<Rightarrow> b) in
     bnd (sdjwt_claims env PID) (\<lambda>(device_key, claims).
     bnd (holder_jwk_kwargs env device_key) (\<lambda>jwk_kwargs.
     bnd (lib (get_jwk env jwk_kwargs True (seed env))) (\<lambda>holder_keys.
     lib (SDJWTIssuer env claims (issuer_key demo_keys) (holder_key holder_keys) use_decoys)))))"

text \<open>The built-in exceptions of Python, and \<open>binascii.Error\<close> of its standard library.\<close>

definition builtin :: "exn \<Rightarrow> bool" where
  "builtin e = (e = KeyError \<or> e = IndexError \<or> e = TypeError \<or> e = AttributeError \<or> e = ValueError \<or> e = BinasciiError)"

section \<open>Example inputs\<close>

text \<open>
  A concrete environment and concrete requests, used where a theorem is applied to an
  input. The library stand-ins are small tables: \<open>urlsafe_b64decode\<close> knows the two
  encoded device keys of the examples, \<open>load_pem_public_key\<close> the two keys (one on
  secp256r1, one on secp256k1), and \<open>get_jwk\<close> refuses a holder key without a curve.
\<close>

definition example_jwk :: jwk where
  "example_jwk =
     \<lparr>jwk_kty = ''EC'', jwk_crv = Some ''P-256'',
      jwk_x = ''b28d4MwZMjw8-00CG4xfnn9SLMVMM19SlqZpVb_uNtQ'',
      jwk_y = ''Xv5zWwuoaTgdS6hV43yI6gBwTnjukmFQQnJ_kCxzqk8'',
      jwk_d = Some ''Ur2bNKuBPOrAaxsRnbSH6hIhmNTxSGXshDSUD1a1y7g''\<rparr>"

definition example_env :: env where
  "example_env =
     \<lparr>key_settings = \<lparr>issuer_key = example_jwk, holder_key = example_jwk, key_size = 256, kty = ''EC''\<rparr>,
      add_decoy_claims = Some False,
      utcoffset = (\<lambda>date. 0),
      uuid4 = ''3f2c9a54-7d1e-4b8a-9c46-0e5b7a1d2f30'',
      sha256_digest = (\<lambda>message. ''digest''),
      get_jwk = (\<lambda>jwk_kwargs no_randomness random_seed.
                   if jwk_crv (holder_key jwk_kwargs) = None then Inl ''InvalidJWKValue''
                   else Inr jwk_kwargs),
      SDJWTIssuer = (\<lambda>claims issuer holder decoys. Inr ''eyJhbGciOiJFUzI1NiJ9.e30.c2ln~''),
      load_pem_public_key =
        (\<lambda>pem. if pem = ''PEM-P256'' then Inr (EllipticCurvePublicKey ''secp256r1'' 258 3)
                else if pem = ''PEM-K256'' then Inr (EllipticCurvePublicKey ''secp256k1'' 258 3)
                else Inl ''ValueError''),
      urlsafe_b64decode =
        (\<lambda>s. if s = ''UEVNLVAyNTY='' then Some ''PEM-P256''
              else if s = ''UEVNLUsyNTY='' then Some ''PEM-K256'' else None),
      urlsafe_b64encode = (\<lambda>b. b),
      b64encode = (\<lambda>b. if b = [CHR 0x01, CHR 0x02] then ''AQI='' else if b = [CHR 0x03] then ''Aw=='' else '''')\<rparr>"

definition example_evidence :: json where
  "example_evidence =
     JList [JDict [(''type'', JStr ''eu.europa.ec.eudiw.pid.1''),
                   (''source'', JDict [(''organization_name'', JStr ''Test PID issuer''),
                                       (''organization_id'', JStr ''EUDI Wallet Reference Implementation''),
                                       (''country_code'', JStr ''FC'')])]]"

definition example_pid_group :: json where
  "example_pid_group =
     JDict [(''family_name'', JStr ''Doe''), (''given_name'', JStr ''Jane''),
            (''birth_date'', JStr ''1990-01-01''), (''issuance_date'', JStr ''2024-01-01''),
            (''expiry_date'', JStr ''2034-01-01'')]"

text \<open>A request with two claim groups, one group, and a device key on secp256k1.\<close>

definition example_PID :: "string \<Rightarrow> json \<Rightarrow> json" where
  "example_PID device_key claim_groups =
     JDict [(''version'', JStr ''0.2''), (''country'', JStr ''FC''),
            (''doctype'', JStr ''eu.europa.ec.eudiw.pid.1''),
            (''device_publickey'', JStr device_key),
            (''data'', JDict [(''evidence'', example_evidence), (''claims'', claim_groups)])]"

definition two_groups :: json where
  "two_groups =
     JDict [(''eu.europa.ec.eudiw.pid.1'', example_pid_group),
            (''eu.europa.ec.eudiw.pid.fc.1'', JDict [(''age_over_18'', JBool True)])]"

definition one_group :: json where
  "one_group = JDict [(''eu.europa.ec.eudiw.pid.1'', example_pid_group)]"

section \<open>Theorems\<close>

lemma py_int_div_exact: "0 < b \<Longrightarrow> py_int_div (a * b) b = a"
proof (cases "0 \<le> a")
  case True
  assume "0 < b"
  with True show ?thesis by (simp add: py_int_div_def)
next
  case False
  assume b: "0 < b"
  with False have neg: "\<not> 0 \<le> a * b" by (simp add: zero_le_mult_iff)
  have "(- (a * b)) div b = - a"
    using b nonzero_mult_div_cancel_right [of b "- a"] by simp
  then show ?thesis using neg by (simp add: py_int_div_def)
qed

lemma DatestringFormatter_utc:
  "strptime s = Some dt \<Longrightarrow>
   DatestringFormatter (\<lambda>_. 0) (JStr s) = Inr (days_since_epoch dt)"
  using py_int_div_exact [of 86400 "days_since_epoch dt"]
  by (simp add: DatestringFormatter_def timestamp_def)

subsection \<open>Auxiliary facts\<close>

lemma bnd_Inl [simp]: "bnd (Inl e) f = Inl e" by (simp add: bnd_def)
lemma bnd_Inr [simp]: "bnd (Inr v) f = f v" by (simp add: bnd_def)
lemma bnd_Inr_iff: "bnd m f = Inr y \<longleftrightarrow> (\<exists>v. m = Inr v \<and> f v = Inr y)"
  by (cases m) simp_all
lemma bnd_Inl_iff: "bnd m f = Inl e \<longleftrightarrow> m = Inl e \<or> (\<exists>v. m = Inr v \<and> f v = Inl e)"
  by (cases m) simp_all

lemma py_eq_JStr [simp]: "py_eq (JStr a) (JStr b) \<longleftrightarrow> a = b"
  by (simp add: py_eq_def)





lemma getitem_dict_get: "getitem x k = Inr v \<Longrightarrow> dict_get x k d = Inr v"
  by (cases x) (auto split: option.splits)

lemma getitem_Inr_JDict: "getitem x k = Inr v \<Longrightarrow> \<exists>kvs. x = JDict kvs \<and> map_of kvs k = Some v"
  by (cases x) (auto split: option.splits)





lemma getitem_err: "getitem x k = Inl e \<Longrightarrow> e = KeyError \<or> e = TypeError"
  by (cases x) (auto split: option.splits)

lemma index_err: "index x i = Inl e \<Longrightarrow> e = IndexError \<or> e = KeyError \<or> e = TypeError"
  by (cases x) (auto split: if_splits)

lemma DatestringFormatter_err: "DatestringFormatter tz d = Inl e \<Longrightarrow> e = ValueError \<or> e = TypeError"
  by (cases d) (auto simp: DatestringFormatter_def split: option.splits)

lemma list_index_err: "list_index xs i = Inl e \<Longrightarrow> e = IndexError"
  by (auto simp: list_index_def split: if_splits)

lemma dict_get_err: "dict_get x k d = Inl e \<Longrightarrow> e = AttributeError"
  by (cases x) auto

lemma dict_keys_err: "dict_keys x = Inl e \<Longrightarrow> e = AttributeError"
  by (cases x) auto

lemma seq_index_err: "seq_index xs n = Inl e \<Longrightarrow> e = IndexError"
  by (auto simp: seq_index_def Let_def split: if_splits)

lemma subscript_err: "subscript x i = Inl e \<Longrightarrow> e = KeyError \<or> e = TypeError \<or> e = IndexError"
  by (cases "(x, i)" rule: subscript.cases)
     (auto split: option.splits sum.splits dest: seq_index_err)

lemma py_iter_err: "py_iter x = Inl e \<Longrightarrow> e = TypeError"
  by (cases x) auto

lemma DATA_sd_jwt_loop_err:
  "DATA_sd_jwt_loop PID items Data = Inl e \<Longrightarrow> e = KeyError \<or> e = TypeError \<or> e = IndexError"
  by (induction items arbitrary: Data) (auto simp: bnd_Inl_iff dest: subscript_err)

lemma DATA_sd_jwt_err: "DATA_sd_jwt PID = Inl e \<Longrightarrow> e = KeyError \<or> e = TypeError \<or> e = IndexError"
  by (auto simp: DATA_sd_jwt_def bnd_Inl_iff dest: py_iter_err DATA_sd_jwt_loop_err)

lemma update_item_err: "update_item D k other = Inl e \<Longrightarrow> e = KeyError \<or> e = AttributeError"
  by (auto simp: update_item_def split: option.splits sdclaims.splits)

lemma lib_err: "lib r = Inl e \<Longrightarrow> \<exists>c. e = LibraryError c"
  by (cases r) (auto simp: lib_def)

lemma sdjwt_claims_err: "sdjwt_claims env PID = Inl e \<Longrightarrow> builtin e"
  unfolding sdjwt_claims_def Let_def builtin_def
  by (auto simp: bnd_Inl_iff dest!: getitem_err index_err DatestringFormatter_err list_index_err
      dict_get_err dict_keys_err DATA_sd_jwt_err update_item_err)

lemmas example_defs = example_env_def example_jwk_def example_PID_def example_evidence_def
  example_pid_group_def two_groups_def one_group_def



lemma example_iat: "DatestringFormatter (\<lambda>date. 0) (JStr ''2024-01-01'') = Inr 19723"
  by code_simp

lemma example_exp: "DatestringFormatter (\<lambda>date. 0) (JStr ''2034-01-01'') = Inr 23376"
  by code_simp


lemma example_claims_one:
  "sdjwt_claims example_env (example_PID device_key one_group) = Inl IndexError"
  by (simp add: sdjwt_claims_def example_defs list_index_def example_iat example_exp)


lemma holder_jwk_kwargs_err: "holder_jwk_kwargs env k = Inl e \<Longrightarrow> builtin e \<or> (\<exists>c. e = LibraryError c)"
proof -
  assume a: "holder_jwk_kwargs env k = Inl e"
  have pk: "\<And>v. (case v of EllipticCurvePublicKey name px py \<Rightarrow> Inr (name, px, py)
                  | OtherPublicKey \<Rightarrow> Inl AttributeError) = Inl e \<Longrightarrow> e = AttributeError"
    by (simp split: public_key.splits)
  from a show ?thesis
    unfolding holder_jwk_kwargs_def Let_def builtin_def
    by (auto simp: bnd_Inl_iff split: json.splits option.splits prod.splits dest!: lib_err pk)
qed

lemma sdjwtFormatter_err:
  "sdjwtFormatter env PID = Inl e \<Longrightarrow> builtin e \<or> (\<exists>c. e = LibraryError c)"
  unfolding sdjwtFormatter_def Let_def
  by (auto simp: bnd_Inl_iff dest: lib_err sdjwt_claims_err holder_jwk_kwargs_err)

lemma sdjwt_claims_needs_two_groups:
  assumes "bnd (getitem PID ''data'') (\<lambda>data. getitem data ''claims'') = Inr (JDict groups)"
    and "length groups < 2"
  shows "\<exists>e. sdjwt_claims env PID = Inl e \<and> (e = KeyError \<or> e = IndexError \<or> e = TypeError \<or> e = ValueError)"
proof -
  from assms(1) obtain data where data: "getitem PID ''data'' = Inr data"
    and cl: "getitem data ''claims'' = Inr (JDict groups)"
    by (auto simp: bnd_Inr_iff)
  have pd: "dict_get PID ''data'' (JDict []) = Inr data"
    using data by (rule getitem_dict_get)
  have no: "list_index (map fst groups) (Suc 0) = Inl IndexError"
    using assms(2) by (simp add: list_index_def)
  show ?thesis
  proof (cases "sdjwt_claims env PID")
    case (Inr r)
    then have False
      by (auto simp: sdjwt_claims_def data cl pd no bnd_Inr_iff Let_def)
    then show ?thesis ..
  next
    case (Inl e)
    then have "e = KeyError \<or> e = IndexError \<or> e = TypeError \<or> e = ValueError"
      by (auto simp: sdjwt_claims_def data cl pd no bnd_Inl_iff Let_def
          split: option.splits
          dest!: getitem_err index_err DatestringFormatter_err list_index_err)
    with Inl show ?thesis by simp
  qed
qed

subsection \<open>C3: the day count of DatestringFormatter\<close>

text \<open>
  Claim C3: for every date string the builder accepts, \<open>DatestringFormatter(d)\<close> is
  the number of whole days between 1970-01-01 and \<open>d\<close>. The function reads the parsed
  date as local midnight, so the claim holds where the process runs on UTC
  (\<open>DatestringFormatter_utc\<close>) and fails east of it: in a process whose local time
  is one hour ahead of UTC (Lisbon in summer), \<open>2024-07-01\<close> is accepted, lies
  19905 days after the epoch, and is formatted as 19904.
\<close>

theorem DatestringFormatter_local_midnight:
  "strptime ''2024-07-01'' = Some (2024, 7, 1) \<and>
   days_since_epoch (2024, 7, 1) = 19905 \<and>
   DatestringFormatter (\<lambda>_. 3600) (JStr ''2024-07-01'') = Inr 19904"
  by code_simp

subsection \<open>C2: what is disclosed and what is selectively disclosable\<close>



subsection \<open>C10: the seed of key generation\<close>


subsection \<open>C4: a holder key on an unrecognised curve\<close>



subsection \<open>C5: fewer than two claim groups\<close>

text \<open>
  Claim C5 says that \<open>sdjwtFormatter\<close> fails with \<open>IncompleteAttributeSetError\<close> when
  \<open>data.claims\<close> holds fewer than two claim groups. The sources define no such error:
  with the PID group alone, the positional access \<open>list(...)[1]\<close> of line 184 raises
  \<open>IndexError\<close>.
\<close>

theorem sdjwtFormatter_one_group_IndexError:
  "sdjwtFormatter example_env (example_PID ''UEVNLVAyNTY='' one_group) = Inl IndexError"
  by (simp add: sdjwtFormatter_def example_claims_one)
     (simp add: example_defs lib_def)

text \<open>
  C5 as amended: with fewer than two claim groups the builder does fail, with one of
  Python's built-in exceptions \<open>KeyError\<close>, \<open>IndexError\<close>, \<open>TypeError\<close> and
  \<open>ValueError\<close>, or with the exception of the first \<open>get_jwk\<close> call; never with
  \<open>IncompleteAttributeSetError\<close>.
\<close>

theorem sdjwtFormatter_fewer_than_two_groups:
  assumes "bnd (getitem PID ''data'') (\<lambda>data. getitem data ''claims'') = Inr (JDict groups)"
    and "length groups < 2"
  shows "\<exists>e. sdjwtFormatter env PID = Inl e \<and>
           (e = KeyError \<or> e = IndexError \<or> e = TypeError \<or> e = ValueError \<or> (\<exists>c. e = LibraryError c)) \<and>
           e \<noteq> IncompleteAttributeSetError"
proof -
  from sdjwt_claims_needs_two_groups [OF assms] obtain e where
    e: "sdjwt_claims env PID = Inl e" "e = KeyError \<or> e = IndexError \<or> e = TypeError \<or> e = ValueError"
    by blast
  show ?thesis
  proof (cases "lib (get_jwk env (key_settings env) True (seed env))")
    case (Inl e')
    then obtain c where "e' = LibraryError c" by (auto dest: lib_err)
    with Inl show ?thesis by (simp add: sdjwtFormatter_def)
  next
    case (Inr demo_keys)
    then have "sdjwtFormatter env PID = Inl e" by (simp add: sdjwtFormatter_def e(1) Let_def)
    with e(2) show ?thesis by auto
  qed
qed

theorem sdjwtFormatter_fewer_than_two_groups_witness:
  "bnd (getitem (example_PID ''UEVNLVAyNTY='' one_group) ''data'') (\<lambda>data. getitem data ''claims'')
     = Inr (JDict [(''eu.europa.ec.eudiw.pid.1'', example_pid_group)]) \<and>
   length [(''eu.europa.ec.eudiw.pid.1'', example_pid_group)] < 2 \<and>
   (\<exists>e. sdjwtFormatter example_env (example_PID ''UEVNLVAyNTY='' one_group) = Inl e \<and>
           (e = KeyError \<or> e = IndexError \<or> e = TypeError \<or> e = ValueError \<or> (\<exists>c. e = LibraryError c)) \<and>
           e \<noteq> IncompleteAttributeSetError)"
proof -
  have h: "bnd (getitem (example_PID ''UEVNLVAyNTY='' one_group) ''data'') (\<lambda>data. getitem data ''claims'')
     = Inr (JDict [(''eu.europa.ec.eudiw.pid.1'', example_pid_group)])"
    by (simp add: example_PID_def one_group_def)
  have l: "length [(''eu.europa.ec.eudiw.pid.1'', example_pid_group)] < 2" by simp
  from sdjwtFormatter_fewer_than_two_groups [OF h l, of example_env] h l show ?thesis by simp
qed

end
